theory Spec2Isabelle
  imports Main
begin

section \<open>QLogger: the data model\<close>

text \<open>
  The embedding follows \<^verbatim>\<open>src/QLogger/qlogger.h\<close> and \<^verbatim>\<open>src/QLogger/qlogger.cpp\<close>.
  A \<^verbatim>\<open>QString\<close> is a \<^typ>\<open>string\<close>, read as the bytes of its UTF-8 encoding (the codec
  the writer sets on its text stream), so the size of a file is the length of its content.
\<close>

subsection \<open>LogLevel\<close>

text \<open>
  \<^verbatim>\<open>enum LogLevel { TraceLevel = 0, DebugLevel = 1, InfoLevel = 2, WarnLevel = 3,
  ErrorLevel = 4, FatalLevel = 5 }\<close> is an unscoped enumeration: it is compared by its
  integer value, and \<^verbatim>\<open>levelToString\<close> has a \<^verbatim>\<open>default\<close> branch for values
  outside the six enumerators. The level is therefore an integer.
\<close>

type_synonym LogLevel = int

definition TraceLevel :: LogLevel where "TraceLevel = 0"
definition DebugLevel :: LogLevel where "DebugLevel = 1"
definition InfoLevel :: LogLevel where "InfoLevel = 2"
definition WarnLevel :: LogLevel where "WarnLevel = 3"
definition ErrorLevel :: LogLevel where "ErrorLevel = 4"
definition FatalLevel :: LogLevel where "FatalLevel = 5"

definition DATE_FORMAT :: string where
  "DATE_FORMAT = ''yyyy-MM-dd-hh-mm-ss''"

subsection \<open>The world outside the program\<close>

text \<open>
  What \<^verbatim>\<open>qDebug()\<close> prints. The texts are fixed (French) sentences with the arguments
  substituted; a constructor stands for each sentence and carries its arguments.
\<close>

datatype diagnostic =
    EmptyFilePath
      \<comment> \<open>\<^verbatim>\<open>write\<close>: the file path is empty\<close>
  | ConsoleLog string
      \<comment> \<open>\<^verbatim>\<open>write\<close>, under \<^verbatim>\<open>QT_DEBUG\<close>: the log line itself\<close>
  | CannotOpen string string
      \<comment> \<open>\<^verbatim>\<open>write\<close>: the file (\<^verbatim>\<open>%1\<close>) cannot be opened, with the error string (\<^verbatim>\<open>%2\<close>)\<close>
  | AlreadyExists string
      \<comment> \<open>\<^verbatim>\<open>QLoggerManager::add\<close>: the name exists already\<close>
  | NotRegistered string
      \<comment> \<open>\<^verbatim>\<open>privateLog\<close>, \<^verbatim>\<open>setLimitSize\<close>: the name is not registered\<close>

record QDateTime =
  year :: nat
  month :: nat
  day :: nat
  hour :: nat
  minute :: nat
  second :: nat

text \<open>
  The mutable world: the files (absolute path to content), the console that
  \<^verbatim>\<open>qDebug()\<close> writes to, and the number of times the wall clock has been read.
\<close>

record world =
  files :: "string \<rightharpoonup> string"
  console :: "diagnostic list"
  clockReads :: nat

text \<open>
  What the program does not decide: the wall clock (the value of the n-th call of
  \<^verbatim>\<open>QDateTime::currentDateTime()\<close>), Qt's \<^verbatim>\<open>QDateTime::toString(format)\<close>, the
  current directory, whether the operating system lets a file be opened for appending
  (\<open>None\<close>: it does; \<open>Some err\<close>: it does not, with \<^verbatim>\<open>errorString()\<close> = \<open>err\<close>) or
  renamed, and whether the build defines \<^verbatim>\<open>QT_DEBUG\<close>.
\<close>

record env =
  clock :: "nat \<Rightarrow> QDateTime"
  toString :: "QDateTime \<Rightarrow> string \<Rightarrow> string"
  currentPath :: string
  openError :: "string \<Rightarrow> string option"
  renameDenied :: "string \<Rightarrow> string \<Rightarrow> bool"
  QT_DEBUG :: bool

definition qDebug :: "diagnostic \<Rightarrow> world \<Rightarrow> world" where
  "qDebug d w = w\<lparr>console := console w @ [d]\<rparr>"

definition currentDateTime :: "env \<Rightarrow> world \<Rightarrow> QDateTime \<times> world" where
  "currentDateTime e w = (clock e (clockReads w), w\<lparr>clockReads := Suc (clockReads w)\<rparr>)"

subsection \<open>Paths and files, as Qt reads them\<close>

text \<open>
  Paths are POSIX paths. A relative path is resolved against the current directory;
  no further cleaning of the path (\<^verbatim>\<open>..\<close>, doubled separators) is modelled.
\<close>

definition absoluteFilePath :: "env \<Rightarrow> string \<Rightarrow> string" where
  "absoluteFilePath e p =
     (case p of
        [] \<Rightarrow> currentPath e @ ''/''
      | c # cs \<Rightarrow> if c = CHR ''/'' then p else currentPath e @ ''/'' @ p)"

text \<open>\<^verbatim>\<open>QFileInfo::fileName()\<close>: the name of the file, excluding the path.\<close>

definition fileName :: "string \<Rightarrow> string" where
  "fileName p = rev (takeWhile (\<lambda>c. c \<noteq> CHR ''/'') (rev p))"

text \<open>
  \<^verbatim>\<open>QFileInfo::baseName()\<close>: all characters of the file name up to (but not including)
  the first \<^verbatim>\<open>.\<close>; \<^verbatim>\<open>QFileInfo::completeSuffix()\<close>: all characters of the file name
  after (but not including) the first \<^verbatim>\<open>.\<close>.
\<close>

definition baseName :: "string \<Rightarrow> string" where
  "baseName p = takeWhile (\<lambda>c. c \<noteq> CHR ''.'') (fileName p)"

definition completeSuffix :: "string \<Rightarrow> string" where
  "completeSuffix p = drop 1 (dropWhile (\<lambda>c. c \<noteq> CHR ''.'') (fileName p))"

text \<open>
  \<^verbatim>\<open>info.absoluteDir().absoluteFilePath(name)\<close>: the directory of the file, as an
  absolute path, followed by the separator and \<open>name\<close>. Here \<open>absoluteDir\<close> is the
  absolute path of the file up to and including its last separator, so the name is
  appended to it as it is.
\<close>

definition absoluteDir :: "env \<Rightarrow> string \<Rightarrow> string" where
  "absoluteDir e p = rev (dropWhile (\<lambda>c. c \<noteq> CHR ''/'') (rev (absoluteFilePath e p)))"

definition dirAbsoluteFilePath :: "env \<Rightarrow> string \<Rightarrow> string \<Rightarrow> string" where
  "dirAbsoluteFilePath e p name = absoluteDir e p @ name"

text \<open>\<^verbatim>\<open>QFileInfo::size()\<close>: the size in bytes, 0 when the file does not exist.\<close>

definition fileSize :: "env \<Rightarrow> world \<Rightarrow> string \<Rightarrow> int" where
  "fileSize e w p =
     (case files w (absoluteFilePath e p) of None \<Rightarrow> 0 | Some c \<Rightarrow> int (length c))"

text \<open>
  \<^verbatim>\<open>QFile::rename(newName)\<close> fails (and changes nothing) when the file does not
  exist, when a file named \<open>newName\<close> exists already, or when the system refuses.
\<close>

definition rename :: "env \<Rightarrow> string \<Rightarrow> string \<Rightarrow> world \<Rightarrow> world" where
  "rename e oldName newName w =
     (let a = absoluteFilePath e oldName; b = absoluteFilePath e newName
      in case files w a of
           None \<Rightarrow> w
         | Some c \<Rightarrow>
             (case files w b of
                Some c' \<Rightarrow> w
              | None \<Rightarrow>
                  if renameDenied e a b then w
                  else w\<lparr>files := (files w)(a := None, b \<mapsto> c)\<rparr>))"

text \<open>
  \<^verbatim>\<open>file.open(Append | Text)\<close>, \<^verbatim>\<open>flux << log << endl\<close>, \<^verbatim>\<open>file.close()\<close> on a file
  that could be opened: the file is created when it is missing, and the line and a
  newline are added at its end.
\<close>

definition content :: "world \<Rightarrow> string \<Rightarrow> string" where
  "content w a = (case files w a of None \<Rightarrow> [] | Some c \<Rightarrow> c)"

definition appendLine :: "env \<Rightarrow> string \<Rightarrow> string \<Rightarrow> world \<Rightarrow> world" where
  "appendLine e p line w =
     (let a = absoluteFilePath e p
      in w\<lparr>files := (files w)(a \<mapsto> content w a @ line @ [CHR 0x0A])\<rparr>)"

section \<open>QLoggerWriter\<close>

record QLoggerWriter =
  m_filePath :: string
  m_fileSizeLimit :: int
  m_saveDatetime :: bool
  m_datetimeFormat :: string
  m_level :: LogLevel

text \<open>The two constructors.\<close>

definition QLoggerWriter_new :: QLoggerWriter where
  "QLoggerWriter_new =
     \<lparr>m_filePath = [], m_fileSizeLimit = 0, m_saveDatetime = True,
      m_datetimeFormat = DATE_FORMAT, m_level = DebugLevel\<rparr>"

definition QLoggerWriter_new2 :: "string \<Rightarrow> LogLevel \<Rightarrow> QLoggerWriter" where
  "QLoggerWriter_new2 filePath level =
     QLoggerWriter_new\<lparr>m_level := level, m_filePath := filePath\<rparr>"

definition levelToString :: "LogLevel \<Rightarrow> string" where
  "levelToString level =
     (if level = TraceLevel then ''trace''
      else if level = DebugLevel then ''debug''
      else if level = InfoLevel then ''info''
      else if level = WarnLevel then ''warning''
      else if level = ErrorLevel then ''error''
      else if level = FatalLevel then ''fatal''
      else ''INVALID'')"

definition setLevel :: "LogLevel \<Rightarrow> QLoggerWriter \<Rightarrow> QLoggerWriter" where
  "setLevel level this = this\<lparr>m_level := level\<rparr>"

definition setFilePath :: "string \<Rightarrow> QLoggerWriter \<Rightarrow> QLoggerWriter" where
  "setFilePath filePath this = this\<lparr>m_filePath := filePath\<rparr>"

definition setFileSizeLimit :: "int \<Rightarrow> QLoggerWriter \<Rightarrow> QLoggerWriter" where
  "setFileSizeLimit limit this = this\<lparr>m_fileSizeLimit := limit\<rparr>"

text \<open>
  Modelled from the spec: \<^verbatim>\<open>saveDatetime\<close> and \<^verbatim>\<open>setSaveDatetime\<close> are declared in
  the header and have no definition in the source. The specification lists the setter of
  the timestamp flag among the "pure mutators, no validation beyond type".
\<close>

definition saveDatetime :: "QLoggerWriter \<Rightarrow> bool" where
  "saveDatetime this = m_saveDatetime this"

definition setSaveDatetime :: "bool \<Rightarrow> QLoggerWriter \<Rightarrow> QLoggerWriter" where
  "setSaveDatetime save this = this\<lparr>m_saveDatetime := save\<rparr>"

definition datetimeFormat :: "QLoggerWriter \<Rightarrow> string" where
  "datetimeFormat this = m_datetimeFormat this"

definition setDatetimeFormat :: "string \<Rightarrow> QLoggerWriter \<Rightarrow> QLoggerWriter" where
  "setDatetimeFormat format this = this\<lparr>m_datetimeFormat := format\<rparr>"

text \<open>
  A member function that is not \<^verbatim>\<open>const\<close> takes the object and the world and returns
  both, so that what it leaves alone is visible.
\<close>

definition checkFileSizeLimit ::
  "env \<Rightarrow> QLoggerWriter \<times> world \<Rightarrow> QLoggerWriter \<times> world" where
  "checkFileSizeLimit e s =
     (let (this, w) = s;
          fileSizeLimit = m_fileSizeLimit this
      in if fileSizeLimit \<le> 0 then (this, w)
         else if fileSize e w (m_filePath this) \<ge> fileSizeLimit then
           (let (now, w1) = currentDateTime e w;
                newName = baseName (m_filePath this) @ ''_''
                          @ toString e now ''ddMMyyyyhhmmss'' @ ''.''
                          @ completeSuffix (m_filePath this)
            in (this, rename e (m_filePath this)
                        (dirAbsoluteFilePath e (m_filePath this) newName) w1))
         else (this, w))"

text \<open>
  \<^verbatim>\<open>QLoggerWriter::write\<close> (\<open>write\<close> is a keyword of Isabelle, hence the longer name).
\<close>

definition QLoggerWriter_write ::
  "env \<Rightarrow> string \<Rightarrow> LogLevel \<Rightarrow> QLoggerWriter \<times> world \<Rightarrow> QLoggerWriter \<times> world" where
  "QLoggerWriter_write e message level s =
     (let (this, w) = s
      in if m_level this > level then (this, w)
         else if m_filePath this = [] then (this, qDebug EmptyFilePath w)
         else
           (let (this1, w1) = checkFileSizeLimit e (this, w);
                log0 = levelToString level @ '' : '' @ message;
                (log, w2) =
                  (if m_saveDatetime this1 then
                     (let (now, w') = currentDateTime e w1
                      in (toString e now DATE_FORMAT @ '' : '' @ log0, w'))
                   else (log0, w1));
                w3 = (if QT_DEBUG e then qDebug (ConsoleLog log) w2 else w2)
            in case openError e (absoluteFilePath e (m_filePath this1)) of
                 None \<Rightarrow> (this1, appendLine e (m_filePath this1) log w3)
               | Some err \<Rightarrow> (this1, qDebug (CannotOpen (m_filePath this1) err) w3)))"

section \<open>QLoggerManager\<close>

subsection \<open>The map of writers\<close>

text \<open>
  \<^verbatim>\<open>QMap<QString, QSharedPointer<QLoggerWriter>> m_loggers\<close>: each key has one value,
  a shared pointer that is null (\<open>None\<close>) or owns a writer (\<open>Some writer\<close>). No pointer
  is ever copied out of the map, so each writer is owned by its entry alone and the
  entry holds the writer itself.
\<close>

type_synonym loggers = "string \<rightharpoonup> QLoggerWriter option"

record QLoggerManager =
  m_loggers :: loggers

text \<open>
  \<^verbatim>\<open>QMap::operator[]\<close> on a map that is not \<^verbatim>\<open>const\<close>: when the key is absent, a
  default-constructed value (the null pointer) is inserted under it first.
\<close>

definition qmap_index :: "loggers \<Rightarrow> string \<Rightarrow> QLoggerWriter option \<times> loggers" where
  "qmap_index m key =
     (case m key of None \<Rightarrow> (None, m(key \<mapsto> None)) | Some p \<Rightarrow> (p, m))"

text \<open>\<^verbatim>\<open>QMap::insert\<close> replaces the value of a key that exists.\<close>

definition qmap_insert :: "loggers \<Rightarrow> string \<Rightarrow> QLoggerWriter option \<Rightarrow> loggers" where
  "qmap_insert m key p = m(key \<mapsto> p)"

definition qmap_remove :: "loggers \<Rightarrow> string \<Rightarrow> loggers" where
  "qmap_remove m key = m(key := None)"

text \<open>
  \<^verbatim>\<open>QMap::value\<close> is \<^verbatim>\<open>const\<close>: it returns the value of the key, or a
  default-constructed value (the null pointer) when the key is absent.
\<close>

definition qmap_value :: "loggers \<Rightarrow> string \<Rightarrow> QLoggerWriter option" where
  "qmap_value m key = (case m key of None \<Rightarrow> None | Some p \<Rightarrow> p)"

subsection \<open>Member functions\<close>

text \<open>
  The recursive mutex \<^verbatim>\<open>QLoggerManager::mutex\<close> that these functions lock is free
  whenever one thread runs alone, which is what the functions below describe.
\<close>

definition QLoggerManager_new :: QLoggerManager where
  "QLoggerManager_new = \<lparr>m_loggers = Map.empty\<rparr>"

definition add ::
  "string \<Rightarrow> string \<Rightarrow> LogLevel \<Rightarrow> QLoggerManager \<times> world \<Rightarrow> QLoggerManager \<times> world" where
  "add filePath name level s =
     (let (this, w) = s;
          (p, loggers1) = qmap_index (m_loggers this) name
      in case p of
           Some existing \<Rightarrow> (this\<lparr>m_loggers := loggers1\<rparr>, qDebug (AlreadyExists name) w)
         | None \<Rightarrow>
             (let writer = Some (QLoggerWriter_new2 filePath level)
              in (this\<lparr>m_loggers := qmap_insert loggers1 name writer\<rparr>, w)))"

definition remove :: "string \<Rightarrow> QLoggerManager \<Rightarrow> QLoggerManager" where
  "remove name this = this\<lparr>m_loggers := qmap_remove (m_loggers this) name\<rparr>"

definition logWriter ::
  "string \<Rightarrow> QLoggerManager \<Rightarrow> QLoggerWriter option \<times> QLoggerManager" where
  "logWriter name this = (qmap_value (m_loggers this) name, this)"

subsection \<open>The instance and the static functions\<close>

text \<open>
  \<^verbatim>\<open>m_instance\<close> is null (\<open>None\<close>) until the first call of \<^verbatim>\<open>getInstancePointer\<close>.
  Run by one thread, \<^verbatim>\<open>getInstancePointer\<close> constructs the manager when the pointer is
  null and returns the pointer.
\<close>

definition getInstancePointer :: "QLoggerManager option \<Rightarrow> QLoggerManager option" where
  "getInstancePointer m_instance =
     (case m_instance of None \<Rightarrow> Some QLoggerManager_new | Some manager \<Rightarrow> Some manager)"

definition getInstance :: "QLoggerManager option \<Rightarrow> QLoggerManager" where
  "getInstance m_instance =
     (case getInstancePointer m_instance of
        None \<Rightarrow> QLoggerManager_new | Some manager \<Rightarrow> manager)"

text \<open>
  A writer reached through the pointer that \<^verbatim>\<open>logWriter\<close> returns is changed in place:
  the entry of the map holds the writer as the call leaves it.
\<close>

definition privateLog ::
  "env \<Rightarrow> string \<Rightarrow> string \<Rightarrow> LogLevel \<Rightarrow> QLoggerManager option \<times> world
     \<Rightarrow> QLoggerManager option \<times> world" where
  "privateLog e name message level s =
     (let (m_instance, w) = s;
          (p, manager) = logWriter name (getInstance m_instance)
      in case p of
           Some writer \<Rightarrow>
             (let (writer1, w1) = QLoggerWriter_write e message level (writer, w)
              in (Some (manager\<lparr>m_loggers := (m_loggers manager)(name \<mapsto> Some writer1)\<rparr>), w1))
         | None \<Rightarrow> (Some manager, qDebug (NotRegistered name) w))"

definition log ::
  "env \<Rightarrow> string \<Rightarrow> string \<Rightarrow> LogLevel \<Rightarrow> QLoggerManager option \<times> world
     \<Rightarrow> QLoggerManager option \<times> world" where
  "log e name message level s = privateLog e name message level s"

definition setLimitSize ::
  "int \<Rightarrow> string \<Rightarrow> QLoggerManager option \<times> world \<Rightarrow> QLoggerManager option \<times> world" where
  "setLimitSize limit name s =
     (let (m_instance, w) = s;
          (p, manager) = logWriter name (getInstance m_instance)
      in case p of
           Some writer \<Rightarrow>
             (Some (manager\<lparr>m_loggers :=
                (m_loggers manager)(name \<mapsto> Some (setFileSizeLimit limit writer))\<rparr>), w)
         | None \<Rightarrow> (Some manager, qDebug (NotRegistered name) w))"

text \<open>
  The free functions of the namespace: \<^verbatim>\<open>QLogger::log\<close> and
  \<^verbatim>\<open>QLogger::setLimitSize\<close> call the static functions of the same names above, and
  each of the others logs at one level.
\<close>

definition trace where "trace e message name = log e name message TraceLevel"
definition debug where "debug e message name = log e name message DebugLevel"
definition info where "info e message name = log e name message InfoLevel"
definition warning where "warning e message name = log e name message WarnLevel"
definition error where "error e message name = log e name message ErrorLevel"
definition fatal where "fatal e message name = log e name message FatalLevel"

subsection \<open>getInstancePointer, run by several threads\<close>

text \<open>
  The statements of \<^verbatim>\<open>getInstancePointer\<close>, one step each:
  \<^verbatim>\<open>if (!m_instance)\<close>, \<^verbatim>\<open>QMutex mutex; QMutexLocker locker(&mutex);\<close>, the inner
  \<^verbatim>\<open>if (!m_instance)\<close>, \<^verbatim>\<open>m_instance.reset(new QLoggerManager)\<close>, the end of the
  locker's scope, \<^verbatim>\<open>return m_instance.data()\<close>.
\<close>

datatype pc = OuterCheck | MutexLock | InnerCheck | Reset | MutexUnlock | ReturnData | Finished

record thread =
  pc :: pc
  returned :: "nat option"

text \<open>
  A manager object is known by its address, the number of managers constructed before
  it. The mutex that a call locks is the local variable \<^verbatim>\<open>mutex\<close> that the call itself
  declares (it hides the static \<^verbatim>\<open>QLoggerManager::mutex\<close>): a mutex is known by the
  thread whose call declared it.
\<close>

record shared =
  instance_ptr :: "nat option"
  constructed :: nat
  locked :: "nat set"

type_synonym threads = "nat \<Rightarrow> thread"

definition goto :: "nat \<Rightarrow> pc \<Rightarrow> threads \<Rightarrow> threads" where
  "goto t l ts = ts(t := (ts t)\<lparr>pc := l\<rparr>)"

definition step :: "nat \<Rightarrow> threads \<times> shared \<Rightarrow> threads \<times> shared" where
  "step t s =
     (let (ts, sh) = s
      in case pc (ts t) of
           OuterCheck \<Rightarrow>
             (if instance_ptr sh = None then (goto t MutexLock ts, sh)
              else (goto t ReturnData ts, sh))
         | MutexLock \<Rightarrow>
             (if t \<in> locked sh then (ts, sh)
              else (goto t InnerCheck ts, sh\<lparr>locked := insert t (locked sh)\<rparr>))
         | InnerCheck \<Rightarrow>
             (if instance_ptr sh = None then (goto t Reset ts, sh)
              else (goto t MutexUnlock ts, sh))
         | Reset \<Rightarrow>
             (goto t MutexUnlock ts,
              sh\<lparr>instance_ptr := Some (constructed sh), constructed := Suc (constructed sh)\<rparr>)
         | MutexUnlock \<Rightarrow> (goto t ReturnData ts, sh\<lparr>locked := locked sh - {t}\<rparr>)
         | ReturnData \<Rightarrow> (ts(t := \<lparr>pc = Finished, returned = instance_ptr sh\<rparr>), sh)
         | Finished \<Rightarrow> (ts, sh))"

text \<open>A schedule names the thread that takes each next step.\<close>

fun run :: "nat list \<Rightarrow> threads \<times> shared \<Rightarrow> threads \<times> shared" where
  "run [] s = s"
| "run (t # sched) s = run sched (step t s)"

definition start :: "threads \<times> shared" where
  "start =
     (\<lambda>t. \<lparr>pc = OuterCheck, returned = None\<rparr>,
      \<lparr>instance_ptr = None, constructed = 0, locked = {}\<rparr>)"

section \<open>An environment to evaluate in\<close>

text \<open>
  \<^verbatim>\<open>QDateTime::toString\<close> on the expressions that the two formats of the program use:
  \<^verbatim>\<open>yyyy\<close>, \<^verbatim>\<open>MM\<close>, \<^verbatim>\<open>dd\<close>, \<^verbatim>\<open>hh\<close>, \<^verbatim>\<open>mm\<close>, \<^verbatim>\<open>ss\<close>; every other character is
  copied. The theorems below hold for every \<open>toString\<close>; this one serves to evaluate.
\<close>

definition digit :: "nat \<Rightarrow> char" where
  "digit n = ''0123456789'' ! (n mod 10)"

definition pad2 :: "nat \<Rightarrow> string" where
  "pad2 n = [digit (n div 10), digit n]"

definition pad4 :: "nat \<Rightarrow> string" where
  "pad4 n = [digit (n div 1000), digit (n div 100), digit (n div 10), digit n]"

fun qt_toString :: "QDateTime \<Rightarrow> string \<Rightarrow> string" where
  "qt_toString t [] = []"
| "qt_toString t (c # cs) =
     (if take 4 (c # cs) = ''yyyy'' then pad4 (year t) @ qt_toString t (drop 3 cs)
      else if take 2 (c # cs) = ''MM'' then pad2 (month t) @ qt_toString t (drop 1 cs)
      else if take 2 (c # cs) = ''dd'' then pad2 (day t) @ qt_toString t (drop 1 cs)
      else if take 2 (c # cs) = ''hh'' then pad2 (hour t) @ qt_toString t (drop 1 cs)
      else if take 2 (c # cs) = ''mm'' then pad2 (minute t) @ qt_toString t (drop 1 cs)
      else if take 2 (c # cs) = ''ss'' then pad2 (second t) @ qt_toString t (drop 1 cs)
      else c # qt_toString t cs)"

text \<open>
  The clock reads 2024-01-05 13:45:09 and advances a second with each reading; every
  file can be opened and renamed; the current directory is \<^verbatim>\<open>/var/log\<close>.
\<close>

definition env0 :: env where
  "env0 =
     \<lparr>clock = (\<lambda>n. \<lparr>year = 2024, month = 1, day = 5, hour = 13, minute = 45, second = 9 + n\<rparr>),
      toString = qt_toString,
      currentPath = ''/var/log'',
      openError = (\<lambda>p. None),
      renameDenied = (\<lambda>a b. False),
      QT_DEBUG = False\<rparr>"

definition world0 :: world where
  "world0 = \<lparr>files = Map.empty, console = [], clockReads = 0\<rparr>"

section \<open>The rotated name, as the specification words it\<close>

text \<open>
  The specification derives the two parts of the rotated name "by splitting the original
  file name at its last extension separator": the part before the last \<^verbatim>\<open>.\<close> and the
  part after it. These definitions follow those words; the program's own are
  \<^const>\<open>baseName\<close> and \<^const>\<open>completeSuffix\<close>.
\<close>

definition lastDot_baseName :: "string \<Rightarrow> string" where
  "lastDot_baseName p = rev (drop 1 (dropWhile (\<lambda>c. c \<noteq> CHR ''.'') (rev (fileName p))))"

definition lastDot_suffix :: "string \<Rightarrow> string" where
  "lastDot_suffix p = rev (takeWhile (\<lambda>c. c \<noteq> CHR ''.'') (rev (fileName p)))"

definition spec_rotatedName :: "string \<Rightarrow> string \<Rightarrow> string" where
  "spec_rotatedName p stamp = lastDot_baseName p @ ''_'' @ stamp @ ''.'' @ lastDot_suffix p"

section \<open>Evaluation\<close>

text \<open>The defining equations that evaluate the program on a concrete input.\<close>

lemmas LogLevel_defs =
  TraceLevel_def DebugLevel_def InfoLevel_def WarnLevel_def ErrorLevel_def FatalLevel_def

lemmas path_defs =
  fileName_def baseName_def completeSuffix_def absoluteDir_def dirAbsoluteFilePath_def
  absoluteFilePath_def fileSize_def rename_def

lemmas eval_defs =
  QLoggerWriter_write_def checkFileSizeLimit_def QLoggerWriter_new2_def QLoggerWriter_new_def
  env0_def world0_def LogLevel_defs levelToString_def DATE_FORMAT_def
  currentDateTime_def appendLine_def content_def qDebug_def pad2_def pad4_def digit_def
  Let_def

lemmas manager_defs =
  add_def remove_def logWriter_def qmap_index_def qmap_insert_def qmap_remove_def qmap_value_def
  getInstance_def getInstancePointer_def QLoggerManager_new_def privateLog_def log_def

section \<open>Properties of the writer\<close>

lemma checkFileSizeLimit_this: "fst (checkFileSizeLimit e (this, w)) = this"
  by (simp add: checkFileSizeLimit_def Let_def split: prod.splits)

text \<open>
  What a write that passes the filter, has a path and can open its file leaves in the
  file: the content found after the rotation check, then the line, then a newline.
\<close>

lemma write_accepted:
  assumes "m_level this \<le> level" and "m_filePath this \<noteq> []"
    and "openError e (absoluteFilePath e (m_filePath this)) = None"
  shows "files (snd (QLoggerWriter_write e message level (this, w)))
           (absoluteFilePath e (m_filePath this)) =
         Some (content (snd (checkFileSizeLimit e (this, w))) (absoluteFilePath e (m_filePath this))
               @ (if m_saveDatetime this
                  then toString e (clock e (clockReads (snd (checkFileSizeLimit e (this, w)))))
                         DATE_FORMAT @ '' : ''
                  else [])
               @ levelToString level @ '' : '' @ message @ [CHR 0x0A])"
proof -
  obtain t1 w1 where c: "checkFileSizeLimit e (this, w) = (t1, w1)"
    by (cases "checkFileSizeLimit e (this, w)")
  have t1: "t1 = this"
    using checkFileSizeLimit_this [of e this w] c by simp
  show ?thesis
    using assms c t1
    by (simp add: QLoggerWriter_write_def Let_def currentDateTime_def appendLine_def
        qDebug_def content_def split: prod.splits)
qed

lemma levelToString_names:
  "levelToString TraceLevel = ''trace'' \<and> levelToString DebugLevel = ''debug'' \<and>
   levelToString InfoLevel = ''info'' \<and> levelToString WarnLevel = ''warning'' \<and>
   levelToString ErrorLevel = ''error'' \<and> levelToString FatalLevel = ''fatal''"
  by (simp add: levelToString_def LogLevel_defs)

lemma levelToString_invalid:
  "level < TraceLevel \<or> FatalLevel < level \<Longrightarrow> levelToString level = ''INVALID''"
  by (auto simp add: levelToString_def LogLevel_defs)

text \<open>
  Claim C1. A write whose level is strictly below the writer's minimum level returns
  with the writer and the world (files, console, clock) exactly as they were. A write
  whose level is the minimum level or above, on a writer with a path and a file that can
  be opened, ends with the message and a newline at the end of the file: the filter
  lets the minimum level itself through.
\<close>

theorem write_level_filter:
  "(level < m_level this \<longrightarrow> QLoggerWriter_write e message level (this, w) = (this, w)) \<and>
   (m_level this \<le> level \<and> m_filePath this \<noteq> [] \<and>
    openError e (absoluteFilePath e (m_filePath this)) = None \<longrightarrow>
      (\<exists>before. files (snd (QLoggerWriter_write e message level (this, w)))
                  (absoluteFilePath e (m_filePath this))
               = Some (before @ message @ [CHR 0x0A])))"
proof (intro conjI impI)
  assume "level < m_level this"
  then show "QLoggerWriter_write e message level (this, w) = (this, w)"
    by (simp add: QLoggerWriter_write_def)
next
  assume a: "m_level this \<le> level \<and> m_filePath this \<noteq> [] \<and>
    openError e (absoluteFilePath e (m_filePath this)) = None"
  from a have "files (snd (QLoggerWriter_write e message level (this, w)))
           (absoluteFilePath e (m_filePath this)) =
         Some ((content (snd (checkFileSizeLimit e (this, w))) (absoluteFilePath e (m_filePath this))
               @ (if m_saveDatetime this
                  then toString e (clock e (clockReads (snd (checkFileSizeLimit e (this, w)))))
                         DATE_FORMAT @ '' : ''
                  else [])
               @ levelToString level @ '' : '') @ message @ [CHR 0x0A])"
    using write_accepted [of this level e message w] by simp
  then show "\<exists>before. files (snd (QLoggerWriter_write e message level (this, w)))
                  (absoluteFilePath e (m_filePath this))
               = Some (before @ message @ [CHR 0x0A])"
    by blast
qed

theorem write_level_filter_witness:
  "InfoLevel < m_level (QLoggerWriter_new2 ''app.log'' WarnLevel) \<and>
   QLoggerWriter_write env0 ''x'' InfoLevel (QLoggerWriter_new2 ''app.log'' WarnLevel, world0)
     = (QLoggerWriter_new2 ''app.log'' WarnLevel, world0) \<and>
   m_level (QLoggerWriter_new2 ''app.log'' WarnLevel) \<le> WarnLevel \<and>
   m_filePath (QLoggerWriter_new2 ''app.log'' WarnLevel) \<noteq> [] \<and>
   openError env0 (absoluteFilePath env0 (m_filePath (QLoggerWriter_new2 ''app.log'' WarnLevel)))
     = None \<and>
   (\<exists>before. files (snd (QLoggerWriter_write env0 ''y'' WarnLevel
                  (QLoggerWriter_new2 ''app.log'' WarnLevel, world0))) ''/var/log/app.log''
      = Some (before @ ''y'' @ [CHR 0x0A]))"
  using write_level_filter [of InfoLevel "QLoggerWriter_new2 ''app.log'' WarnLevel" env0 "''x''" world0]
    write_level_filter [of WarnLevel "QLoggerWriter_new2 ''app.log'' WarnLevel" env0 "''y''" world0]
  by (simp add: QLoggerWriter_new2_def QLoggerWriter_new_def LogLevel_defs env0_def
      absoluteFilePath_def)

text \<open>
  Claim C2. A write that passes the filter, has a path and can open its file leaves in
  the file what the rotation check left there, followed by the line and one newline. The
  line is the name of the level, \<^verbatim>\<open> : \<close>, and the message; when the timestamp flag is set,
  the wall-clock time rendered with \<^verbatim>\<open>DATE_FORMAT\<close> and \<^verbatim>\<open> : \<close> come first. The six
  levels are named trace, debug, info, warning, error and fatal, and exactly the values
  outside them are named INVALID.
\<close>

theorem write_line_format:
  assumes "m_level this \<le> level" and "m_filePath this \<noteq> []"
    and "openError e (absoluteFilePath e (m_filePath this)) = None"
  shows "files (snd (QLoggerWriter_write e message level (this, w)))
           (absoluteFilePath e (m_filePath this)) =
         Some (content (snd (checkFileSizeLimit e (this, w))) (absoluteFilePath e (m_filePath this))
               @ (if m_saveDatetime this
                  then toString e (clock e (clockReads (snd (checkFileSizeLimit e (this, w)))))
                         DATE_FORMAT @ '' : '' @ levelToString level @ '' : '' @ message
                  else levelToString level @ '' : '' @ message)
               @ [CHR 0x0A]) \<and>
         levelToString TraceLevel = ''trace'' \<and> levelToString DebugLevel = ''debug'' \<and>
         levelToString InfoLevel = ''info'' \<and> levelToString WarnLevel = ''warning'' \<and>
         levelToString ErrorLevel = ''error'' \<and> levelToString FatalLevel = ''fatal'' \<and>
         (if level < TraceLevel \<or> FatalLevel < level then levelToString level = ''INVALID''
          else levelToString level \<noteq> ''INVALID'')"
proof -
  have line: "files (snd (QLoggerWriter_write e message level (this, w)))
           (absoluteFilePath e (m_filePath this)) =
         Some (content (snd (checkFileSizeLimit e (this, w))) (absoluteFilePath e (m_filePath this))
               @ (if m_saveDatetime this
                  then toString e (clock e (clockReads (snd (checkFileSizeLimit e (this, w)))))
                         DATE_FORMAT @ '' : '' @ levelToString level @ '' : '' @ message
                  else levelToString level @ '' : '' @ message)
               @ [CHR 0x0A])"
    using write_accepted [OF assms, of message w] by simp
  have outside: "if level < TraceLevel \<or> FatalLevel < level then levelToString level = ''INVALID''
          else levelToString level \<noteq> ''INVALID''"
    by (auto simp add: levelToString_def LogLevel_defs)
  show ?thesis
    using line outside levelToString_names by blast
qed

theorem write_line_format_witness:
  "m_level (QLoggerWriter_new2 ''app.log'' WarnLevel) \<le> ErrorLevel \<and>
   m_filePath (QLoggerWriter_new2 ''app.log'' WarnLevel) \<noteq> [] \<and>
   openError env0 (absoluteFilePath env0 (m_filePath (QLoggerWriter_new2 ''app.log'' WarnLevel)))
     = None \<and>
   files (snd (QLoggerWriter_write env0 ''y'' ErrorLevel
                  (QLoggerWriter_new2 ''app.log'' WarnLevel, world0))) ''/var/log/app.log''
      = Some (''2024-01-05-13-45-09 : error : y'' @ [CHR 0x0A]) \<and>
   files (snd (QLoggerWriter_write env0 ''y'' 7
                  (setSaveDatetime False (QLoggerWriter_new2 ''app.log'' WarnLevel),
                   world0\<lparr>files := [''/var/log/app.log'' \<mapsto> ''old'' @ [CHR 0x0A]]\<rparr>)))
         ''/var/log/app.log''
      = Some (''old'' @ [CHR 0x0A] @ ''INVALID : y'' @ [CHR 0x0A])"
  using write_line_format
      [of "QLoggerWriter_new2 ''app.log'' WarnLevel" ErrorLevel env0 "''y''" world0]
    write_line_format
      [of "setSaveDatetime False (QLoggerWriter_new2 ''app.log'' WarnLevel)" 7 env0 "''y''"
       "world0\<lparr>files := [''/var/log/app.log'' \<mapsto> ''old'' @ [CHR 0x0A]]\<rparr>"]
  by (simp add: eval_defs path_defs setSaveDatetime_def)

text \<open>
  The timestamp format of the writer has no part in what a write does to the world.
\<close>

lemma write_ignores_datetimeFormat:
  "snd (QLoggerWriter_write e message level (setDatetimeFormat fmt this, w))
     = snd (QLoggerWriter_write e message level (this, w))"
  by (simp add: QLoggerWriter_write_def checkFileSizeLimit_def setDatetimeFormat_def Let_def
      split: prod.splits option.splits)

text \<open>
  Claim C3 says that after \<^verbatim>\<open>setDatetimeFormat(fmt)\<close> the next accepted write renders the
  time with \<^verbatim>\<open>fmt\<close>. The program does not: on a writer whose format was set to
  \<^verbatim>\<open>yyyy\<close> (which renders this time as \<^verbatim>\<open>2024\<close>), the line written still carries the
  time in the built-in \<^verbatim>\<open>DATE_FORMAT\<close>.
\<close>

theorem write_datetimeFormat_ignored:
  "datetimeFormat (setDatetimeFormat ''yyyy'' (QLoggerWriter_new2 ''app.log'' WarnLevel)) = ''yyyy'' \<and>
   toString env0 (clock env0 0) ''yyyy'' = ''2024'' \<and>
   files (snd (QLoggerWriter_write env0 ''y'' ErrorLevel
     (setDatetimeFormat ''yyyy'' (QLoggerWriter_new2 ''app.log'' WarnLevel), world0)))
     ''/var/log/app.log''
   = Some (''2024-01-05-13-45-09 : error : y'' @ [CHR 0x0A])"
  by (simp add: eval_defs path_defs setDatetimeFormat_def datetimeFormat_def)

subsection \<open>The rotation check\<close>

lemma takeWhile_first_dot:
  "CHR ''.'' \<notin> set b \<Longrightarrow> takeWhile (\<lambda>c. c \<noteq> CHR ''.'') (b @ CHR ''.'' # s) = b"
  by (induction b) auto

lemma dropWhile_first_dot:
  "CHR ''.'' \<notin> set b \<Longrightarrow> dropWhile (\<lambda>c. c \<noteq> CHR ''.'') (b @ CHR ''.'' # s) = CHR ''.'' # s"
  by (induction b) auto

lemma baseName_first_dot:
  "fileName p = b @ ''.'' @ s \<Longrightarrow> CHR ''.'' \<notin> set b \<Longrightarrow> baseName p = b"
  by (simp add: baseName_def takeWhile_first_dot)

lemma completeSuffix_first_dot:
  "fileName p = b @ ''.'' @ s \<Longrightarrow> CHR ''.'' \<notin> set b \<Longrightarrow> completeSuffix p = s"
  by (simp add: completeSuffix_def dropWhile_first_dot)

lemma fileName_absoluteFilePath: "fileName (absoluteFilePath e p) = fileName p"
proof (cases p)
  case Nil
  then show ?thesis by (simp add: fileName_def absoluteFilePath_def)
next
  case (Cons c cs)
  show ?thesis
  proof (cases "c = CHR ''/''")
    case True
    with Cons show ?thesis by (simp add: absoluteFilePath_def)
  next
    case False
    have "takeWhile (\<lambda>c. c \<noteq> CHR ''/'') (rev p @ CHR ''/'' # rev (currentPath e))
            = takeWhile (\<lambda>c. c \<noteq> CHR ''/'') (rev p)"
      by (simp add: takeWhile_tail)
    with Cons False show ?thesis
      by (simp add: fileName_def absoluteFilePath_def)
  qed
qed

lemma absoluteDir_fileName: "absoluteDir e p @ fileName p = absoluteFilePath e p"
proof -
  have "absoluteDir e p @ fileName (absoluteFilePath e p) = absoluteFilePath e p"
    unfolding absoluteDir_def fileName_def
    by (metis rev_append rev_rev_ident takeWhile_dropWhile_id)
  then show ?thesis by (simp add: fileName_absoluteFilePath)
qed

lemma absoluteFilePath_slash:
  "take 1 (currentPath e) = ''/'' \<Longrightarrow> \<exists>r. absoluteFilePath e p = CHR ''/'' # r"
  by (cases "currentPath e"; cases p) (auto simp add: absoluteFilePath_def)

lemma absoluteDir_slash:
  assumes "take 1 (currentPath e) = ''/''"
  shows "\<exists>r. absoluteDir e p = CHR ''/'' # r"
proof -
  obtain r where r: "absoluteFilePath e p = CHR ''/'' # r"
    using absoluteFilePath_slash [OF assms] by blast
  have "dropWhile (\<lambda>c. c \<noteq> CHR ''/'') (rev r @ [CHR ''/''])
          = dropWhile (\<lambda>c. c \<noteq> CHR ''/'') (rev r) @ [CHR ''/'']"
    by (simp add: dropWhile_append3)
  then show ?thesis
    by (simp add: absoluteDir_def r)
qed

lemma absoluteFilePath_in_dir:
  assumes "take 1 (currentPath e) = ''/''"
  shows "absoluteFilePath e (dirAbsoluteFilePath e p n) = absoluteDir e p @ n"
proof -
  obtain r where "absoluteDir e p = CHR ''/'' # r"
    using absoluteDir_slash [OF assms] by blast
  then show ?thesis
    by (simp add: dirAbsoluteFilePath_def absoluteFilePath_def)
qed

text \<open>
  The two parts of a file name, for every name: the base name has no dot; a name with a
  dot is its base name, a dot and its complete suffix; a name without a dot is its own
  base name and has the empty suffix.
\<close>

lemma baseName_no_dot: "CHR ''.'' \<notin> set (baseName p)"
  by (auto simp add: baseName_def dest: set_takeWhileD)

lemma fileName_first_dot:
  "CHR ''.'' \<in> set (fileName p) \<Longrightarrow> fileName p = baseName p @ ''.'' @ completeSuffix p"
proof -
  assume dot: "CHR ''.'' \<in> set (fileName p)"
  let ?P = "\<lambda>c. c \<noteq> CHR ''.''"
  have ne: "dropWhile ?P (fileName p) \<noteq> []"
    using dot by (simp add: dropWhile_eq_Nil_conv)
  then have "hd (dropWhile ?P (fileName p)) = CHR ''.''"
    using hd_dropWhile [of ?P "fileName p"] by simp
  with ne have "dropWhile ?P (fileName p) = CHR ''.'' # drop 1 (dropWhile ?P (fileName p))"
    by (cases "dropWhile ?P (fileName p)") simp_all
  then have "takeWhile ?P (fileName p) @ CHR ''.'' # drop 1 (dropWhile ?P (fileName p))
      = fileName p"
    using takeWhile_dropWhile_id [of ?P "fileName p"] by simp
  then show ?thesis
    by (simp add: baseName_def completeSuffix_def)
qed

lemma fileName_without_dot:
  "CHR ''.'' \<notin> set (fileName p) \<Longrightarrow> baseName p = fileName p \<and> completeSuffix p = []"
proof -
  assume nodot: "CHR ''.'' \<notin> set (fileName p)"
  then have all: "\<forall>c \<in> set (fileName p). c \<noteq> CHR ''.''" by auto
  have t: "takeWhile (\<lambda>c. c \<noteq> CHR ''.'') (fileName p) = fileName p"
    using all by (simp add: takeWhile_eq_all_conv)
  have d: "dropWhile (\<lambda>c. c \<noteq> CHR ''.'') (fileName p) = []"
    using all by (simp add: dropWhile_eq_Nil_conv)
  show ?thesis
    unfolding baseName_def completeSuffix_def t d by simp
qed

lemma rename_result:
  "files w (absoluteFilePath e oldName) = Some c \<Longrightarrow>
   rename e oldName newName w =
     w\<lparr>files :=
        (if files w (absoluteFilePath e newName) = None \<and>
            renameDenied e (absoluteFilePath e oldName) (absoluteFilePath e newName) = False
         then (files w)(absoluteFilePath e oldName := None, absoluteFilePath e newName \<mapsto> c)
         else files w)\<rparr>"
  by (cases "files w (absoluteFilePath e newName)") (simp_all add: rename_def Let_def)

lemma checkFileSizeLimit_rotates:
  assumes lim: "0 < m_fileSizeLimit this"
    and src: "files w (absoluteFilePath e (m_filePath this)) = Some c"
    and big: "m_fileSizeLimit this \<le> int (length c)"
  shows "checkFileSizeLimit e (this, w) =
     (this, rename e (m_filePath this)
        (dirAbsoluteFilePath e (m_filePath this)
           (baseName (m_filePath this) @ ''_''
            @ toString e (clock e (clockReads w)) ''ddMMyyyyhhmmss'' @ ''.''
            @ completeSuffix (m_filePath this)))
        (w\<lparr>clockReads := Suc (clockReads w)\<rparr>))"
proof -
  have "m_fileSizeLimit this \<le> fileSize e w (m_filePath this)"
    using src big by (simp add: fileSize_def)
  with lim show ?thesis
    by (simp add: checkFileSizeLimit_def currentDateTime_def Let_def)
qed

text \<open>
  Claim C4, as the program has it. The rotation check does nothing when the limit is
  zero or negative, when the file is missing, and when the file is smaller than the
  limit. When the limit is positive and the file has reached it, the clock is read once
  and the file is renamed, in its own directory, to the base name, \<^verbatim>\<open>_\<close>, the wall-clock
  time rendered with \<^verbatim>\<open>ddMMyyyyhhmmss\<close>, a dot and the complete suffix. Base name and
  suffix split the file name at its first dot; a name without a dot has the empty
  suffix, so that \<^verbatim>\<open>syslog\<close> becomes \<^verbatim>\<open>syslog_05012024134509.\<close> with its final dot. When
  a file of the new name exists already, or the system refuses, nothing is renamed and
  the files are as they were.
\<close>

theorem checkFileSizeLimit_rotation:
  "(m_fileSizeLimit this \<le> 0 \<longrightarrow> checkFileSizeLimit e (this, w) = (this, w)) \<and>
   (files w (absoluteFilePath e (m_filePath this)) = None \<longrightarrow>
      checkFileSizeLimit e (this, w) = (this, w)) \<and>
   (fileSize e w (m_filePath this) < m_fileSizeLimit this \<longrightarrow>
      checkFileSizeLimit e (this, w) = (this, w)) \<and>
   (0 < m_fileSizeLimit this \<and>
    files w (absoluteFilePath e (m_filePath this)) = Some c \<and>
    m_fileSizeLimit this \<le> int (length c) \<and>
    newName = baseName (m_filePath this) @ ''_''
              @ toString e (clock e (clockReads w)) ''ddMMyyyyhhmmss'' @ ''.''
              @ completeSuffix (m_filePath this) \<and>
    target = absoluteFilePath e (dirAbsoluteFilePath e (m_filePath this) newName)
    \<longrightarrow>
      checkFileSizeLimit e (this, w) =
        (this, w\<lparr>files :=
                   (if files w target = None \<and>
                       renameDenied e (absoluteFilePath e (m_filePath this)) target = False
                    then (files w)(absoluteFilePath e (m_filePath this) := None, target \<mapsto> c)
                    else files w),
                 clockReads := Suc (clockReads w)\<rparr>) \<and>
      (take 1 (currentPath e) = ''/'' \<longrightarrow>
         target = absoluteDir e (m_filePath this) @ newName)) \<and>
   absoluteFilePath e (m_filePath this)
     = absoluteDir e (m_filePath this) @ fileName (m_filePath this) \<and>
   CHR ''.'' \<notin> set (baseName (m_filePath this)) \<and>
   (if CHR ''.'' \<in> set (fileName (m_filePath this))
    then fileName (m_filePath this)
           = baseName (m_filePath this) @ ''.'' @ completeSuffix (m_filePath this)
    else baseName (m_filePath this) = fileName (m_filePath this) \<and>
         completeSuffix (m_filePath this) = [])"
proof -
  let ?p = "m_filePath this"
  let ?a = "absoluteFilePath e ?p"
  have off: "m_fileSizeLimit this \<le> 0 \<longrightarrow> checkFileSizeLimit e (this, w) = (this, w)"
    by (simp add: checkFileSizeLimit_def Let_def)
  have missing: "files w ?a = None \<longrightarrow> checkFileSizeLimit e (this, w) = (this, w)"
    by (simp add: checkFileSizeLimit_def fileSize_def Let_def)
  have small: "fileSize e w ?p < m_fileSizeLimit this \<longrightarrow>
      checkFileSizeLimit e (this, w) = (this, w)"
    by (simp add: checkFileSizeLimit_def Let_def)
  have rotate: "0 < m_fileSizeLimit this \<and> files w ?a = Some c \<and>
    m_fileSizeLimit this \<le> int (length c) \<and>
    newName = baseName ?p @ ''_'' @ toString e (clock e (clockReads w)) ''ddMMyyyyhhmmss''
              @ ''.'' @ completeSuffix ?p \<and>
    target = absoluteFilePath e (dirAbsoluteFilePath e ?p newName)
    \<longrightarrow>
      checkFileSizeLimit e (this, w) =
        (this, w\<lparr>files :=
                   (if files w target = None \<and> renameDenied e ?a target = False
                    then (files w)(?a := None, target \<mapsto> c)
                    else files w),
                 clockReads := Suc (clockReads w)\<rparr>) \<and>
      (take 1 (currentPath e) = ''/'' \<longrightarrow> target = absoluteDir e ?p @ newName)"
  proof (intro impI, elim conjE)
    assume lim: "0 < m_fileSizeLimit this" and src: "files w ?a = Some c"
      and big: "m_fileSizeLimit this \<le> int (length c)"
      and nn: "newName = baseName ?p @ ''_''
                 @ toString e (clock e (clockReads w)) ''ddMMyyyyhhmmss''
                 @ ''.'' @ completeSuffix ?p"
      and tg: "target = absoluteFilePath e (dirAbsoluteFilePath e ?p newName)"
    have src1: "files (w\<lparr>clockReads := Suc (clockReads w)\<rparr>) ?a = Some c"
      using src by simp
    have "checkFileSizeLimit e (this, w) =
        (this, rename e ?p (dirAbsoluteFilePath e ?p newName)
                 (w\<lparr>clockReads := Suc (clockReads w)\<rparr>))"
      unfolding nn by (rule checkFileSizeLimit_rotates [OF lim src big])
    also have "rename e ?p (dirAbsoluteFilePath e ?p newName)
                 (w\<lparr>clockReads := Suc (clockReads w)\<rparr>)
        = w\<lparr>files :=
                   (if files w target = None \<and> renameDenied e ?a target = False
                    then (files w)(?a := None, target \<mapsto> c)
                    else files w),
                 clockReads := Suc (clockReads w)\<rparr>"
      unfolding rename_result [OF src1] tg by simp
    finally have main: "checkFileSizeLimit e (this, w) =
        (this, w\<lparr>files :=
                   (if files w target = None \<and> renameDenied e ?a target = False
                    then (files w)(?a := None, target \<mapsto> c)
                    else files w),
                 clockReads := Suc (clockReads w)\<rparr>)" .
    have dir: "take 1 (currentPath e) = ''/'' \<longrightarrow> target = absoluteDir e ?p @ newName"
      unfolding tg using absoluteFilePath_in_dir [of e ?p newName] by blast
    from main dir show "checkFileSizeLimit e (this, w) =
        (this, w\<lparr>files :=
                   (if files w target = None \<and> renameDenied e ?a target = False
                    then (files w)(?a := None, target \<mapsto> c)
                    else files w),
                 clockReads := Suc (clockReads w)\<rparr>) \<and>
      (take 1 (currentPath e) = ''/'' \<longrightarrow> target = absoluteDir e ?p @ newName)"
      by blast
  qed
  have samedir: "?a = absoluteDir e ?p @ fileName ?p"
    by (simp add: absoluteDir_fileName)
  have nodot: "CHR ''.'' \<notin> set (baseName ?p)"
    by (rule baseName_no_dot)
  have split: "if CHR ''.'' \<in> set (fileName ?p)
    then fileName ?p = baseName ?p @ ''.'' @ completeSuffix ?p
    else baseName ?p = fileName ?p \<and> completeSuffix ?p = []"
    using fileName_first_dot [of ?p] fileName_without_dot [of ?p] by simp
  from off missing small rotate samedir nodot split show ?thesis
    by (intro conjI)
qed

theorem checkFileSizeLimit_rotation_witness:
  "checkFileSizeLimit env0 (QLoggerWriter_new2 ''archive.tar.gz'' DebugLevel,
        world0\<lparr>files := [''/var/log/archive.tar.gz'' \<mapsto> ''0123456789'']\<rparr>)
     = (QLoggerWriter_new2 ''archive.tar.gz'' DebugLevel,
        world0\<lparr>files := [''/var/log/archive.tar.gz'' \<mapsto> ''0123456789'']\<rparr>) \<and>
   checkFileSizeLimit env0 (setFileSizeLimit 5 (QLoggerWriter_new2 ''archive.tar.gz'' DebugLevel),
        world0)
     = (setFileSizeLimit 5 (QLoggerWriter_new2 ''archive.tar.gz'' DebugLevel), world0) \<and>
   checkFileSizeLimit env0 (setFileSizeLimit 11 (QLoggerWriter_new2 ''archive.tar.gz'' DebugLevel),
        world0\<lparr>files := [''/var/log/archive.tar.gz'' \<mapsto> ''0123456789'']\<rparr>)
     = (setFileSizeLimit 11 (QLoggerWriter_new2 ''archive.tar.gz'' DebugLevel),
        world0\<lparr>files := [''/var/log/archive.tar.gz'' \<mapsto> ''0123456789'']\<rparr>) \<and>
   0 < m_fileSizeLimit (setFileSizeLimit 10 (QLoggerWriter_new2 ''archive.tar.gz'' DebugLevel)) \<and>
   files (world0\<lparr>files := [''/var/log/archive.tar.gz'' \<mapsto> ''0123456789'']\<rparr>)
      (absoluteFilePath env0 ''archive.tar.gz'') = Some ''0123456789'' \<and>
   m_fileSizeLimit (setFileSizeLimit 10 (QLoggerWriter_new2 ''archive.tar.gz'' DebugLevel))
     \<le> int (length ''0123456789'') \<and>
   take 1 (currentPath env0) = ''/'' \<and>
   checkFileSizeLimit env0 (setFileSizeLimit 10 (QLoggerWriter_new2 ''archive.tar.gz'' DebugLevel),
        world0\<lparr>files := [''/var/log/archive.tar.gz'' \<mapsto> ''0123456789'']\<rparr>)
     = (setFileSizeLimit 10 (QLoggerWriter_new2 ''archive.tar.gz'' DebugLevel),
        \<lparr>files = [''/var/log/archive.tar.gz'' \<mapsto> ''0123456789'']
                   (''/var/log/archive.tar.gz'' := None,
                    ''/var/log/archive_05012024134509.tar.gz'' \<mapsto> ''0123456789''),
         console = [], clockReads = 1\<rparr>) \<and>
   CHR ''.'' \<notin> set (fileName ''syslog'') \<and>
   checkFileSizeLimit env0 (setFileSizeLimit 3 (QLoggerWriter_new2 ''syslog'' DebugLevel),
        world0\<lparr>files := [''/var/log/syslog'' \<mapsto> ''abcdef'']\<rparr>)
     = (setFileSizeLimit 3 (QLoggerWriter_new2 ''syslog'' DebugLevel),
        \<lparr>files = [''/var/log/syslog'' \<mapsto> ''abcdef'']
                   (''/var/log/syslog'' := None,
                    ''/var/log/syslog_05012024134509.'' \<mapsto> ''abcdef''),
         console = [], clockReads = 1\<rparr>) \<and>
   checkFileSizeLimit env0 (setFileSizeLimit 3 (QLoggerWriter_new2 ''app.log'' DebugLevel),
        world0\<lparr>files := [''/var/log/app.log'' \<mapsto> ''abcdef'',
                            ''/var/log/app_05012024134509.log'' \<mapsto> ''x'']\<rparr>)
     = (setFileSizeLimit 3 (QLoggerWriter_new2 ''app.log'' DebugLevel),
        \<lparr>files = [''/var/log/app.log'' \<mapsto> ''abcdef'',
                   ''/var/log/app_05012024134509.log'' \<mapsto> ''x''],
         console = [], clockReads = 1\<rparr>) \<and>
   checkFileSizeLimit (env0\<lparr>renameDenied := \<lambda>a b. True\<rparr>)
        (setFileSizeLimit 3 (QLoggerWriter_new2 ''app.log'' DebugLevel),
         world0\<lparr>files := [''/var/log/app.log'' \<mapsto> ''abcdef'']\<rparr>)
     = (setFileSizeLimit 3 (QLoggerWriter_new2 ''app.log'' DebugLevel),
        \<lparr>files = [''/var/log/app.log'' \<mapsto> ''abcdef''], console = [], clockReads = 1\<rparr>)"
  using checkFileSizeLimit_rotation
      [of "QLoggerWriter_new2 ''archive.tar.gz'' DebugLevel" env0
          "world0\<lparr>files := [''/var/log/archive.tar.gz'' \<mapsto> ''0123456789'']\<rparr>"]
    checkFileSizeLimit_rotation
      [of "setFileSizeLimit 5 (QLoggerWriter_new2 ''archive.tar.gz'' DebugLevel)" env0 world0]
    checkFileSizeLimit_rotation
      [of "setFileSizeLimit 11 (QLoggerWriter_new2 ''archive.tar.gz'' DebugLevel)" env0
          "world0\<lparr>files := [''/var/log/archive.tar.gz'' \<mapsto> ''0123456789'']\<rparr>"]
    checkFileSizeLimit_rotation
      [of "setFileSizeLimit 10 (QLoggerWriter_new2 ''archive.tar.gz'' DebugLevel)" env0
          "world0\<lparr>files := [''/var/log/archive.tar.gz'' \<mapsto> ''0123456789'']\<rparr>"
          "''0123456789''" "''archive_05012024134509.tar.gz''"
          "''/var/log/archive_05012024134509.tar.gz''"]
    checkFileSizeLimit_rotation
      [of "setFileSizeLimit 3 (QLoggerWriter_new2 ''syslog'' DebugLevel)" env0
          "world0\<lparr>files := [''/var/log/syslog'' \<mapsto> ''abcdef'']\<rparr>"
          "''abcdef''" "''syslog_05012024134509.''" "''/var/log/syslog_05012024134509.''"]
    checkFileSizeLimit_rotation
      [of "setFileSizeLimit 3 (QLoggerWriter_new2 ''app.log'' DebugLevel)" env0
          "world0\<lparr>files := [''/var/log/app.log'' \<mapsto> ''abcdef'',
                              ''/var/log/app_05012024134509.log'' \<mapsto> ''x'']\<rparr>"
          "''abcdef''" "''app_05012024134509.log''" "''/var/log/app_05012024134509.log''"]
    checkFileSizeLimit_rotation
      [of "setFileSizeLimit 3 (QLoggerWriter_new2 ''app.log'' DebugLevel)"
          "env0\<lparr>renameDenied := \<lambda>a b. True\<rparr>"
          "world0\<lparr>files := [''/var/log/app.log'' \<mapsto> ''abcdef'']\<rparr>"
          "''abcdef''" "''app_05012024134509.log''" "''/var/log/app_05012024134509.log''"]
  by (simp add: QLoggerWriter_new2_def QLoggerWriter_new_def env0_def world0_def LogLevel_defs
        pad2_def pad4_def digit_def path_defs setFileSizeLimit_def)

text \<open>
  Claim C4, as the specification words it, splits the name at its last dot and renames
  whenever the limit is reached. On \<^verbatim>\<open>archive.tar.gz\<close> it names
  \<^verbatim>\<open>archive.tar_05012024134509.gz\<close>; the program leaves no such file and renames to
  \<^verbatim>\<open>archive_05012024134509.tar.gz\<close>. On \<^verbatim>\<open>app.log\<close>, when a file
  \<^verbatim>\<open>app_05012024134509.log\<close> exists already, the program renames nothing: both files are
  as they were.
\<close>

theorem checkFileSizeLimit_last_dot_counterexample:
  "0 < m_fileSizeLimit (setFileSizeLimit 5 (QLoggerWriter_new2 ''archive.tar.gz'' DebugLevel)) \<and>
   5 \<le> fileSize env0 (world0\<lparr>files := [''/var/log/archive.tar.gz'' \<mapsto> ''0123456789'']\<rparr>)
          ''archive.tar.gz'' \<and>
   dirAbsoluteFilePath env0 ''archive.tar.gz''
     (spec_rotatedName ''archive.tar.gz'' (toString env0 (clock env0 0) ''ddMMyyyyhhmmss''))
     = ''/var/log/archive.tar_05012024134509.gz'' \<and>
   files (snd (checkFileSizeLimit env0
       (setFileSizeLimit 5 (QLoggerWriter_new2 ''archive.tar.gz'' DebugLevel),
        world0\<lparr>files := [''/var/log/archive.tar.gz'' \<mapsto> ''0123456789'']\<rparr>)))
     ''/var/log/archive.tar_05012024134509.gz'' = None \<and>
   files (snd (checkFileSizeLimit env0
       (setFileSizeLimit 5 (QLoggerWriter_new2 ''archive.tar.gz'' DebugLevel),
        world0\<lparr>files := [''/var/log/archive.tar.gz'' \<mapsto> ''0123456789'']\<rparr>)))
     ''/var/log/archive_05012024134509.tar.gz'' = Some ''0123456789'' \<and>
   0 < m_fileSizeLimit (setFileSizeLimit 3 (QLoggerWriter_new2 ''app.log'' DebugLevel)) \<and>
   3 \<le> fileSize env0 (world0\<lparr>files := [''/var/log/app.log'' \<mapsto> ''abcdef'',
                            ''/var/log/app_05012024134509.log'' \<mapsto> ''x'']\<rparr>) ''app.log'' \<and>
   dirAbsoluteFilePath env0 ''app.log''
     (spec_rotatedName ''app.log'' (toString env0 (clock env0 0) ''ddMMyyyyhhmmss''))
     = ''/var/log/app_05012024134509.log'' \<and>
   files (snd (checkFileSizeLimit env0
       (setFileSizeLimit 3 (QLoggerWriter_new2 ''app.log'' DebugLevel),
        world0\<lparr>files := [''/var/log/app.log'' \<mapsto> ''abcdef'',
                            ''/var/log/app_05012024134509.log'' \<mapsto> ''x'']\<rparr>)))
     ''/var/log/app.log'' = Some ''abcdef'' \<and>
   files (snd (checkFileSizeLimit env0
       (setFileSizeLimit 3 (QLoggerWriter_new2 ''app.log'' DebugLevel),
        world0\<lparr>files := [''/var/log/app.log'' \<mapsto> ''abcdef'',
                            ''/var/log/app_05012024134509.log'' \<mapsto> ''x'']\<rparr>)))
     ''/var/log/app_05012024134509.log'' = Some ''x''"
  by (simp add: eval_defs path_defs setFileSizeLimit_def spec_rotatedName_def
      lastDot_baseName_def lastDot_suffix_def)

text \<open>
  Claim C7. A write at or above the minimum level on a writer whose path is empty
  prints the diagnostic and returns: the files are as they were (nothing is written,
  nothing is renamed), the clock has not been read, and the writer is unchanged.
\<close>

theorem write_empty_path:
  "m_filePath this = [] \<Longrightarrow> m_level this \<le> level \<Longrightarrow>
   QLoggerWriter_write e message level (this, w)
     = (this, w\<lparr>console := console w @ [EmptyFilePath]\<rparr>)"
  by (simp add: QLoggerWriter_write_def qDebug_def)

theorem write_empty_path_witness:
  "m_filePath QLoggerWriter_new = [] \<and> m_level QLoggerWriter_new \<le> FatalLevel \<and>
   QLoggerWriter_write env0 ''lost'' FatalLevel (QLoggerWriter_new, world0)
     = (QLoggerWriter_new, \<lparr>files = Map.empty, console = [EmptyFilePath], clockReads = 0\<rparr>)"
  using write_empty_path [of QLoggerWriter_new FatalLevel env0 "''lost''" world0]
  by (simp add: QLoggerWriter_new_def LogLevel_defs world0_def)

text \<open>
  Claim C10. Whatever branch a write takes (filtered out, empty path, file that cannot
  be opened, line appended), the writer it returns is the writer it was given: the
  path, the minimum level, the size limit, the timestamp flag and the timestamp format
  are unchanged.
\<close>

theorem write_config_unchanged:
  "fst (QLoggerWriter_write e message level (this, w)) = this"
proof -
  obtain t1 w1 where c: "checkFileSizeLimit e (this, w) = (t1, w1)"
    by (cases "checkFileSizeLimit e (this, w)")
  have t1: "t1 = this"
    using checkFileSizeLimit_this [of e this w] c by simp
  show ?thesis
    using c t1
    by (simp add: QLoggerWriter_write_def Let_def split: prod.splits option.splits)
qed

theorem write_config_unchanged_witness:
  "fst (QLoggerWriter_write env0 ''y'' ErrorLevel (QLoggerWriter_new2 ''app.log'' WarnLevel, world0))
     = \<lparr>m_filePath = ''app.log'', m_fileSizeLimit = 0, m_saveDatetime = True,
        m_datetimeFormat = ''yyyy-MM-dd-hh-mm-ss'', m_level = 3\<rparr>"
  using write_config_unchanged
    [of env0 "''y''" ErrorLevel "QLoggerWriter_new2 ''app.log'' WarnLevel" world0]
  by (simp add: QLoggerWriter_new2_def QLoggerWriter_new_def LogLevel_defs DATE_FORMAT_def)

section \<open>Properties of the manager\<close>

lemma add_present:
  "m_loggers this name = Some (Some writer) \<Longrightarrow>
   add filePath name level (this, w) = (this, w\<lparr>console := console w @ [AlreadyExists name]\<rparr>)"
  by (simp add: add_def qmap_index_def qDebug_def)

lemma add_binds:
  "\<exists>writer. m_loggers (fst (add filePath name level (this, w))) name = Some (Some writer)"
  by (cases "m_loggers this name")
     (auto simp add: add_def qmap_index_def qmap_insert_def split: option.splits)

lemma add_absent:
  "m_loggers this name = None \<Longrightarrow>
   add filePath name level (this, w)
     = (this\<lparr>m_loggers := (m_loggers this)(name \<mapsto> Some (QLoggerWriter_new2 filePath level))\<rparr>, w)"
  by (simp add: add_def qmap_index_def qmap_insert_def)

text \<open>
  The functions of the manager leave no null pointer in the map: a name that is bound is
  bound to a writer.
\<close>

lemma QLoggerManager_new_no_null: "m_loggers QLoggerManager_new n \<noteq> Some None"
  by (simp add: QLoggerManager_new_def)

lemma add_no_null:
  "\<forall>n. m_loggers this n \<noteq> Some None \<Longrightarrow>
   m_loggers (fst (add filePath name level (this, w))) n \<noteq> Some None"
  by (cases "m_loggers this name")
     (auto simp add: add_def qmap_index_def qmap_insert_def split: option.splits)

lemma remove_no_null:
  "\<forall>n. m_loggers this n \<noteq> Some None \<Longrightarrow> m_loggers (remove name this) n \<noteq> Some None"
  by (simp add: remove_def qmap_remove_def)

text \<open>
  Claim C5. A name is a key of a map, so it has at most one writer. Adding under a name
  that has a writer changes nothing in the manager and only prints the diagnostic;
  adding twice under one name leaves the manager as the first addition left it; and
  after two additions under a fresh name, the name is looked up to the writer of the
  first path and level.
\<close>

theorem add_existing_untouched:
  "(m_loggers this name = Some (Some writer) \<longrightarrow>
      add filePath name level (this, w)
        = (this, w\<lparr>console := console w @ [AlreadyExists name]\<rparr>)) \<and>
   fst (add filePath2 name level2 (add filePath name level (this, w)))
     = fst (add filePath name level (this, w)) \<and>
   (m_loggers this name = None \<longrightarrow>
      fst (logWriter name (fst (add filePath2 name level2 (add filePath name level (this, w)))))
        = Some (QLoggerWriter_new2 filePath level))"
proof (intro conjI impI)
  assume "m_loggers this name = Some (Some writer)"
  then show "add filePath name level (this, w)
        = (this, w\<lparr>console := console w @ [AlreadyExists name]\<rparr>)"
    by (rule add_present)
next
  obtain this1 w1 where s1: "add filePath name level (this, w) = (this1, w1)"
    by (cases "add filePath name level (this, w)")
  obtain writer1 where "m_loggers this1 name = Some (Some writer1)"
    using add_binds [of filePath name level this w] s1 by auto
  then have "add filePath2 name level2 (this1, w1)
      = (this1, w1\<lparr>console := console w1 @ [AlreadyExists name]\<rparr>)"
    by (rule add_present)
  then show second: "fst (add filePath2 name level2 (add filePath name level (this, w)))
     = fst (add filePath name level (this, w))"
    by (simp add: s1)
  assume "m_loggers this name = None"
  then have "m_loggers (fst (add filePath name level (this, w))) name
      = Some (Some (QLoggerWriter_new2 filePath level))"
    by (simp add: add_absent)
  then show "fst (logWriter name (fst (add filePath2 name level2 (add filePath name level (this, w)))))
        = Some (QLoggerWriter_new2 filePath level)"
    by (simp add: second logWriter_def qmap_value_def)
qed

theorem add_existing_untouched_witness:
  "m_loggers (fst (add ''a.log'' ''ch'' InfoLevel (QLoggerManager_new, world0))) ''ch''
     = Some (Some (QLoggerWriter_new2 ''a.log'' InfoLevel)) \<and>
   add ''b.log'' ''ch'' ErrorLevel (add ''a.log'' ''ch'' InfoLevel (QLoggerManager_new, world0))
     = (\<lparr>m_loggers = [''ch'' \<mapsto> Some (QLoggerWriter_new2 ''a.log'' InfoLevel)]\<rparr>,
        \<lparr>files = Map.empty, console = [AlreadyExists ''ch''], clockReads = 0\<rparr>) \<and>
   m_loggers QLoggerManager_new ''ch'' = None \<and>
   fst (logWriter ''ch'' (fst (add ''b.log'' ''ch'' ErrorLevel
          (add ''a.log'' ''ch'' InfoLevel (QLoggerManager_new, world0)))))
     = Some (QLoggerWriter_new2 ''a.log'' InfoLevel) \<and>
   files (snd (log env0 ''ch'' ''msg'' InfoLevel
      (Some (fst (add ''b.log'' ''ch'' ErrorLevel
          (add ''a.log'' ''ch'' InfoLevel (QLoggerManager_new, world0)))), world0)))
     = [''/var/log/a.log'' \<mapsto> ''2024-01-05-13-45-09 : info : msg'' @ [CHR 0x0A]]"
  using add_existing_untouched
      [of "fst (add ''a.log'' ''ch'' InfoLevel (QLoggerManager_new, world0))" "''ch''"
          "QLoggerWriter_new2 ''a.log'' InfoLevel" "''b.log''" ErrorLevel
          "snd (add ''a.log'' ''ch'' InfoLevel (QLoggerManager_new, world0))"]
    add_existing_untouched
      [of QLoggerManager_new "''ch''" _ "''a.log''" InfoLevel world0 "''b.log''" ErrorLevel]
  by (simp add: manager_defs eval_defs path_defs)

text \<open>
  Claim C6. Logging to a name that is not bound prints the diagnostic that names it and
  nothing else: the files, the clock and the manager with all its writers are as they
  were. When no manager exists yet, \<^verbatim>\<open>getInstance\<close> constructs the empty one, and the
  rest is the same.
\<close>

theorem log_unknown_channel:
  "(m_loggers manager name = None \<longrightarrow>
      log e name message level (Some manager, w)
        = (Some manager, w\<lparr>console := console w @ [NotRegistered name]\<rparr>)) \<and>
   log e name message level (None, w)
     = (Some QLoggerManager_new, w\<lparr>console := console w @ [NotRegistered name]\<rparr>)"
  by (simp add: log_def privateLog_def logWriter_def qmap_value_def getInstance_def
      getInstancePointer_def QLoggerManager_new_def qDebug_def)

theorem log_unknown_channel_witness:
  "m_loggers (fst (add ''a.log'' ''ch'' InfoLevel (QLoggerManager_new, world0))) ''ghost'' = None \<and>
   log env0 ''ghost'' ''msg'' InfoLevel
      (Some (fst (add ''a.log'' ''ch'' InfoLevel (QLoggerManager_new, world0))), world0)
     = (Some \<lparr>m_loggers = [''ch'' \<mapsto> Some (QLoggerWriter_new2 ''a.log'' InfoLevel)]\<rparr>,
        \<lparr>files = Map.empty, console = [NotRegistered ''ghost''], clockReads = 0\<rparr>)"
  using log_unknown_channel
      [of "fst (add ''a.log'' ''ch'' InfoLevel (QLoggerManager_new, world0))" "''ghost''"
          env0 "''msg''" InfoLevel world0]
  by (simp add: add_def qmap_index_def qmap_insert_def QLoggerManager_new_def world0_def)

text \<open>
  Claim C9. \<^verbatim>\<open>logWriter\<close> returns the manager as it was: for a name that is not bound it
  returns the null pointer and binds nothing, for a bound name it returns what the name
  is bound to.
\<close>

theorem logWriter_frame:
  "snd (logWriter name this) = this \<and>
   (m_loggers this name = None \<longrightarrow> fst (logWriter name this) = None) \<and>
   (m_loggers this name = Some p \<longrightarrow> fst (logWriter name this) = p)"
  by (simp add: logWriter_def qmap_value_def)

theorem logWriter_frame_witness:
  "m_loggers (fst (add ''a.log'' ''ch'' InfoLevel (QLoggerManager_new, world0))) ''ghost'' = None \<and>
   logWriter ''ghost'' (fst (add ''a.log'' ''ch'' InfoLevel (QLoggerManager_new, world0)))
     = (None, \<lparr>m_loggers = [''ch'' \<mapsto> Some (QLoggerWriter_new2 ''a.log'' InfoLevel)]\<rparr>) \<and>
   m_loggers (fst (add ''a.log'' ''ch'' InfoLevel (QLoggerManager_new, world0))) ''ch''
     = Some (Some (QLoggerWriter_new2 ''a.log'' InfoLevel)) \<and>
   logWriter ''ch'' (fst (add ''a.log'' ''ch'' InfoLevel (QLoggerManager_new, world0)))
     = (Some (QLoggerWriter_new2 ''a.log'' InfoLevel),
        \<lparr>m_loggers = [''ch'' \<mapsto> Some (QLoggerWriter_new2 ''a.log'' InfoLevel)]\<rparr>)"
  using logWriter_frame
      [of "''ghost''" "fst (add ''a.log'' ''ch'' InfoLevel (QLoggerManager_new, world0))"]
    logWriter_frame
      [of "''ch''" "fst (add ''a.log'' ''ch'' InfoLevel (QLoggerManager_new, world0))"
          "Some (QLoggerWriter_new2 ''a.log'' InfoLevel)"]
  by (simp add: add_def qmap_index_def qmap_insert_def QLoggerManager_new_def prod_eq_iff)

subsection \<open>The instance\<close>

text \<open>
  One thread alone constructs the manager on its first call and never again, and two
  calls that run one after the other return the same manager.
\<close>

lemma getInstancePointer_once:
  "getInstancePointer m_instance \<noteq> None \<and>
   getInstancePointer (getInstancePointer m_instance) = getInstancePointer m_instance"
  by (simp add: getInstancePointer_def split: option.splits)

lemma getInstancePointer_in_turn:
  "constructed (snd (run [0, 0, 0, 0, 0, 0, 1, 1] start)) = 1 \<and>
   returned (fst (run [0, 0, 0, 0, 0, 0, 1, 1] start) 0) = Some 0 \<and>
   returned (fst (run [0, 0, 0, 0, 0, 0, 1, 1] start) 1) = Some 0"
  by (simp add: start_def step_def goto_def)

text \<open>
  Claim C8 says that no two threads can each construct an instance. They can: each call
  locks a mutex of its own, so both threads pass the inner test before either resets
  the pointer. In this schedule of two first calls two managers are constructed, and
  the two calls return different ones.
\<close>

theorem getInstancePointer_race:
  "constructed (snd (run [0, 1, 0, 1, 0, 1, 0, 0, 0, 1, 1, 1] start)) = 2 \<and>
   pc (fst (run [0, 1, 0, 1, 0, 1, 0, 0, 0, 1, 1, 1] start) 0) = Finished \<and>
   pc (fst (run [0, 1, 0, 1, 0, 1, 0, 0, 0, 1, 1, 1] start) 1) = Finished \<and>
   returned (fst (run [0, 1, 0, 1, 0, 1, 0, 0, 0, 1, 1, 1] start) 0) = Some 0 \<and>
   returned (fst (run [0, 1, 0, 1, 0, 1, 0, 0, 0, 1, 1, 1] start) 1) = Some 1"
  by (simp add: start_def step_def goto_def)

end
